theory Spec2Isabelle
  imports Complex_Main "HOL-Library.List_Lexorder" "HOL-Library.Product_Lexorder"
begin

section \<open>Python values and the built-ins the script calls\<close>

text \<open>
  The script \<^verbatim>\<open>scripts/generate_premium_dashboard_excel.py\<close> reads a JSON document,
  derives one table row per proposal and writes a workbook whose aggregates are
  spreadsheet formulas. This theory embeds the computing part of the script: the two
  parsers, the row derivation, the client roster, the top-10 ranking and the formulas
  with the cell ranges they mention. Fonts, fills, borders, widths and charts are left
  out.

  A Python \<^verbatim>\<open>str\<close> is a sequence of Unicode code points, so a string is a list of
  naturals here; \<^verbatim>\<open><\<close> on such lists is the lexicographic order Python uses.
  A \<^verbatim>\<open>float\<close> is idealised as the rational it stands for: rounding error,
  infinities and NaN are outside the model. A calendar date is the triple
  (year, month, day), ordered lexicographically as \<^verbatim>\<open>datetime.date\<close> is.
\<close>

type_synonym pystr = "nat list"

definition u :: "string \<Rightarrow> pystr" where
  "u s = map of_char s"

type_synonym date = "nat \<times> nat \<times> nat"

type_synonym datetime = "date \<times> nat"

datatype error = ValueError | TypeError | AttributeError | JSONDecodeError

datatype pyval =
    VNone
  | VBool bool
  | VInt int
  | VFloat rat
  | VStr pystr
  | VDate date
  | VList "pyval list"
  | VDict "(pystr \<times> pyval) list"

text \<open>
  The library functions whose text grammar is not part of the script are parameters:
  the clock, \<^verbatim>\<open>datetime.fromisoformat\<close>, \<^verbatim>\<open>float\<close> and \<^verbatim>\<open>int\<close> on text,
  \<^verbatim>\<open>repr\<close> (which \<^verbatim>\<open>str\<close> uses for floats, dates and containers) and
  \<^verbatim>\<open>json.loads\<close>. Each returns \<open>Inl\<close> of the exception it raises. The built-in
  \<^verbatim>\<open>sum\<close> over floats is a parameter as well: each addition rounds, in a way that is
  the interpreter's, so the sum of the rationals need not be what it returns.
\<close>

record builtins =
  today :: date
  fromisoformat :: "pystr \<Rightarrow> error + datetime"
  float_of_str :: "pystr \<Rightarrow> error + rat"
  int_of_str :: "pystr \<Rightarrow> error + int"
  repr :: "pyval \<Rightarrow> pystr"
  json_loads :: "pystr \<Rightarrow> error + pyval"
  float_sum :: "rat list \<Rightarrow> rat"

fun str_nat :: "nat \<Rightarrow> pystr" where
  "str_nat n = (if n < 10 then [48 + n] else str_nat (n div 10) @ [48 + n mod 10])"

declare str_nat.simps [simp del]

definition str_int :: "int \<Rightarrow> pystr" where
  "str_int i = (if i < 0 then 45 # str_nat (nat (- i)) else str_nat (nat i))"

text \<open>\<^verbatim>\<open>str(x)\<close>.\<close>

fun py_str :: "builtins \<Rightarrow> pyval \<Rightarrow> pystr" where
  "py_str B VNone = u ''None''"
| "py_str B (VBool b) = (if b then u ''True'' else u ''False'')"
| "py_str B (VInt i) = str_int i"
| "py_str B (VStr s) = s"
| "py_str B v = repr B v"

text \<open>Truth value of \<^verbatim>\<open>x\<close> in \<^verbatim>\<open>x or 0\<close>.\<close>

fun truthy :: "pyval \<Rightarrow> bool" where
  "truthy VNone = False"
| "truthy (VBool b) = b"
| "truthy (VInt i) = (i \<noteq> 0)"
| "truthy (VFloat q) = (q \<noteq> 0)"
| "truthy (VStr s) = (s \<noteq> [])"
| "truthy (VDate d) = True"
| "truthy (VList xs) = (xs \<noteq> [])"
| "truthy (VDict kv) = (kv \<noteq> [])"

text \<open>\<^verbatim>\<open>int(x)\<close>: a float is truncated towards zero, text goes to the parser.\<close>

fun py_int :: "builtins \<Rightarrow> pyval \<Rightarrow> error + int" where
  "py_int B (VBool b) = Inr (if b then 1 else 0)"
| "py_int B (VInt i) = Inr i"
| "py_int B (VFloat q) = Inr (if 0 \<le> q then \<lfloor>q\<rfloor> else \<lceil>q\<rceil>)"
| "py_int B (VStr s) = int_of_str B s"
| "py_int B v = Inl TypeError"

text \<open>\<^verbatim>\<open>d.get(k, default)\<close> on a dictionary given by its items.\<close>

definition py_get :: "(pystr \<times> pyval) list \<Rightarrow> pystr \<Rightarrow> pyval \<Rightarrow> pyval" where
  "py_get kv k dflt = (case map_of kv k of Some v \<Rightarrow> v | None \<Rightarrow> dflt)"

text \<open>
  \<^verbatim>\<open>str.strip()\<close> removes the characters for which \<^verbatim>\<open>str.isspace\<close> holds from
  both ends.
\<close>

definition is_space :: "nat \<Rightarrow> bool" where
  "is_space c \<longleftrightarrow>
     (9 \<le> c \<and> c \<le> 13) \<or> (28 \<le> c \<and> c \<le> 32) \<or> c = 133 \<or> c = 160 \<or> c = 5760 \<or>
     (8192 \<le> c \<and> c \<le> 8202) \<or> c = 8232 \<or> c = 8233 \<or> c = 8239 \<or> c = 8287 \<or> c = 12288"

definition strip :: "pystr \<Rightarrow> pystr" where
  "strip s = rev (dropWhile is_space (rev (dropWhile is_space s)))"

section \<open>The parsers\<close>

text \<open>
  \<^verbatim>\<open>
  def parse_value(raw):
      if raw is None:
          return 0.0
      text = str(raw).strip()
      if not text:
          return 0.0
      return float(text.replace('.', '').replace(',', '.'))
  \<close>
  Code point 46 is the full stop, 44 the comma.
\<close>

definition clean :: "pystr \<Rightarrow> pystr" where
  "clean text = map (\<lambda>c. if c = 44 then 46 else c) (filter (\<lambda>c. c \<noteq> 46) text)"

definition parse_value :: "builtins \<Rightarrow> pyval \<Rightarrow> error + rat" where
  "parse_value B raw =
     (if raw = VNone then Inr 0
      else let text = strip (py_str B raw)
           in if text = [] then Inr 0 else float_of_str B (clean text))"

text \<open>
  \<^verbatim>\<open>
  def parse_date(raw):
      if isinstance(raw, dt.date):
          return raw
      value = str(raw)
      try:
          return dt.datetime.fromisoformat(value.replace('Z', '+00:00')).date()
      except Exception:
          return dt.date.today()
  \<close>
  Code point 90 is \<^verbatim>\<open>Z\<close>; every occurrence is replaced. The result is a sum so that
  the handler is a branch of the model.
\<close>

definition replace_Z :: "pystr \<Rightarrow> pystr" where
  "replace_Z s = concat (map (\<lambda>c. if c = 90 then u ''+00:00'' else [c]) s)"

definition is_date :: "pyval \<Rightarrow> bool" where
  "is_date v = (case v of VDate d \<Rightarrow> True | _ \<Rightarrow> False)"

definition parse_date :: "builtins \<Rightarrow> pyval \<Rightarrow> error + date" where
  "parse_date B raw =
     (case raw of
        VDate d \<Rightarrow> Inr d
      | _ \<Rightarrow>
         (case fromisoformat B (replace_Z (py_str B raw)) of
            Inr dt \<Rightarrow> Inr (fst dt)
          | Inl e \<Rightarrow> Inr (today B)))"

section \<open>Row derivation\<close>

text \<open>
  A row of the data sheet; the script keeps it as a list of ten cells, in the order of
  the headers Data, Cliente, Proposta, Status, Canal, Valor, Pago?, Vendedor,
  Categoria, UF.
\<close>

record row =
  r_date :: date
  r_client :: pystr
  r_title :: pystr
  r_status :: pystr
  r_channel :: pystr
  r_value :: rat
  r_paid :: pystr
  r_seller :: pystr
  r_category :: pystr
  r_uf :: pystr

definition channels :: "pystr list" where
  "channels = [u ''Pix'', u ''Cart'' @ [227] @ u ''o'', u ''Boleto'']"

definition sellers :: "pystr list" where
  "sellers = [u ''Razi'', u ''Ana'', u ''Jo'' @ [227] @ u ''o'', u ''Bea'']"

definition cats :: "pystr list" where
  "cats = [u ''Servi'' @ [231] @ u ''o'', u ''Produto'', u ''Mensalidade'', u ''Setup'']"

definition ufs :: "pystr list" where
  "ufs = [u ''SP'', u ''RJ'', u ''MG'', u ''PR'']"

definition vendida :: pystr where
  "vendida = u ''vendida''"

text \<open>
  \<^verbatim>\<open>round(x, 2)\<close> on the idealised value: to the nearest hundredth, a tie to the
  even one.
\<close>

definition round_half_even :: "rat \<Rightarrow> int" where
  "round_half_even x =
     (let f = \<lfloor>x\<rfloor>; d = x - of_int f
      in if d < 1 / 2 then f else if 1 / 2 < d then f + 1 else if even f then f else f + 1)"

definition round2 :: "rat \<Rightarrow> rat" where
  "round2 x = of_int (round_half_even (x * 100)) / 100"

text \<open>\<^verbatim>\<open>pid = int(p.get("id", 0) or 0)\<close>\<close>

definition pid_of :: "builtins \<Rightarrow> (pystr \<times> pyval) list \<Rightarrow> error + int" where
  "pid_of B kv =
     (let x = py_get kv (u ''id'') (VInt 0) in py_int B (if truthy x then x else VInt 0))"

text \<open>
  The body of the loop over the proposals. \<^verbatim>\<open>p.get\<close> exists on a dictionary only;
  the statements run in the order id, status, date, value, and the first exception
  leaves the loop.
\<close>

definition mk_row :: "builtins \<Rightarrow> (pystr \<times> pyval) list \<Rightarrow> int \<Rightarrow> date \<Rightarrow> rat \<Rightarrow> row" where
  "mk_row B kv pid d v =
     (let status = py_str B (py_get kv (u ''status'') (VStr (u ''pendente'')))
      in \<lparr> r_date = d,
           r_client = py_str B (py_get kv (u ''clientName'') (VStr [])),
           r_title = py_str B (py_get kv (u ''title'') (VStr (u ''Contrato #'' @ str_int pid))),
           r_status = status,
           r_channel = channels ! nat (pid mod int (length channels)),
           r_value = round2 v,
           r_paid = (if status = vendida then u ''Sim'' else u ''N'' @ [227] @ u ''o''),
           r_seller = sellers ! nat ((pid + 1) mod int (length sellers)),
           r_category = cats ! nat ((pid + 2) mod int (length cats)),
           r_uf = ufs ! nat ((pid + 3) mod int (length ufs)) \<rparr>)"

definition derive_row :: "builtins \<Rightarrow> pyval \<Rightarrow> error + row" where
  "derive_row B p =
     (case p of
        VDict kv \<Rightarrow>
          (case pid_of B kv of
             Inl e \<Rightarrow> Inl e
           | Inr pid \<Rightarrow>
              (case parse_date B (py_get kv (u ''createdAt'') VNone) of
                 Inl e \<Rightarrow> Inl e
               | Inr d \<Rightarrow>
                  (case parse_value B (py_get kv (u ''value'') VNone) of
                     Inl e \<Rightarrow> Inl e
                   | Inr v \<Rightarrow> Inr (mk_row B kv pid d v))))
      | _ \<Rightarrow> Inl AttributeError)"

fun derive_all :: "builtins \<Rightarrow> pyval list \<Rightarrow> error + row list" where
  "derive_all B [] = Inr []"
| "derive_all B (p # ps) =
     (case derive_row B p of
        Inl e \<Rightarrow> Inl e
      | Inr r \<Rightarrow> (case derive_all B ps of Inl e \<Rightarrow> Inl e | Inr rs \<Rightarrow> Inr (r # rs)))"

text \<open>
  \<^verbatim>\<open>rows.sort(key=lambda x: x[0])\<close>: Python's sort is stable, as \<open>sort_key\<close> is, and
  a stable sort by a key has one result only.
\<close>

definition derive_rows :: "builtins \<Rightarrow> pyval list \<Rightarrow> error + row list" where
  "derive_rows B ps =
     (case derive_all B ps of Inl e \<Rightarrow> Inl e | Inr rs \<Rightarrow> Inr (sort_key r_date rs))"

section \<open>The data sheet\<close>

datatype cell = CText pystr | CNum rat | CInt int | CDate date

text \<open>
  A sheet filled by \<^verbatim>\<open>ws.append\<close> is the list of its rows, each the list of its
  cells from column A on; \<^verbatim>\<open>ws.max_row\<close> is the number of rows then. A sheet filled
  cell by cell is the list of the writes, each with its (row, column).
\<close>

definition headers :: "pystr list" where
  "headers = [u ''Data'', u ''Cliente'', u ''Proposta'', u ''Status'', u ''Canal'',
     u ''Valor (R$)'', u ''Pago?'', u ''Vendedor'', u ''Categoria'', u ''UF'']"

definition row_cells :: "row \<Rightarrow> cell list" where
  "row_cells r = [CDate (r_date r), CText (r_client r), CText (r_title r), CText (r_status r),
     CText (r_channel r), CNum (r_value r), CText (r_paid r), CText (r_seller r),
     CText (r_category r), CText (r_uf r)]"

definition data_sheet :: "row list \<Rightarrow> cell list list" where
  "data_sheet rows = map CText headers # map row_cells rows"

definition max_row :: "row list \<Rightarrow> nat" where
  "max_row rows = length (data_sheet rows)"

text \<open>
  \<^verbatim>\<open>
  if max_row >= 2:
      ws_data.conditional_formatting.add(f"D2:D{max_row}", ...)   # three times
  \<close>
\<close>

definition cond_format_ranges :: "nat \<Rightarrow> pystr list" where
  "cond_format_ranges mr = (if 2 \<le> mr then replicate 3 (u ''D2:D'' @ str_nat mr) else [])"

section \<open>The client sheet\<close>

text \<open>
  \<^verbatim>\<open>names = sorted({r[1] for r in rows})\<close>: the distinct client names in ascending
  order. Sorting a set gives the same list whatever order the set is read in.
\<close>

definition names_of :: "row list \<Rightarrow> pystr list" where
  "names_of rows = sort (remdups (map r_client rows))"

definition start :: nat where
  "start = 5"

definition client_row :: "nat \<Rightarrow> pystr \<Rightarrow> ((nat \<times> nat) \<times> cell) list" where
  \<open>client_row r name =
     [((r, 1), CText name),
      ((r, 2), CText (u ''=SUMIFS(Dados!$F:$F,Dados!$B:$B,$A'' @ str_nat r @ u '',Dados!$D:$D,"vendida")'')),
      ((r, 3), CText (u ''=COUNTIFS(Dados!$B:$B,$A'' @ str_nat r @ u '',Dados!$D:$D,"vendida")'')),
      ((r, 4), CText (u ''=COUNTIFS(Dados!$B:$B,$A'' @ str_nat r @ u '',Dados!$D:$D,"pendente")'')),
      ((r, 5), CText (u ''=COUNTIFS(Dados!$B:$B,$A'' @ str_nat r @ u '',Dados!$D:$D,"cancelada")'')),
      ((r, 6), CText (u ''=IFERROR($B'' @ str_nat r @ u ''/$C'' @ str_nat r @ u '',0)'')),
      ((r, 7), CText (u ''=IFERROR(MAXIFS(Dados!$A:$A,Dados!$B:$B,$A'' @ str_nat r
                       @ u '',Dados!$D:$D,"vendida"),"")''))]\<close>

text \<open>\<^verbatim>\<open>for idx, name in enumerate(names): r = start + idx; ...\<close>\<close>

definition client_rows :: "pystr list \<Rightarrow> ((nat \<times> nat) \<times> cell) list list" where
  "client_rows names = map (\<lambda>(idx, name). client_row (start + idx) name) (enumerate 0 names)"

text \<open>
  \<^verbatim>\<open>
  total_r = start + len(names)
  ws_clients.cell(total_r, 2, f"=SUM(B{start}:B{total_r-1})")
  \<close>
\<close>

definition sum_formula :: "pystr \<Rightarrow> nat \<Rightarrow> nat \<Rightarrow> pystr" where
  "sum_formula c first_r last_r =
     u ''=SUM('' @ c @ str_nat first_r @ u '':'' @ c @ str_nat last_r @ u '')''"

definition total_row :: "pystr list \<Rightarrow> ((nat \<times> nat) \<times> cell) list" where
  "total_row names =
     (let total_r = start + length names in
      [((total_r, 1), CText (u ''TOTAL'')),
       ((total_r, 2), CText (sum_formula (u ''B'') start (total_r - 1))),
       ((total_r, 3), CText (sum_formula (u ''C'') start (total_r - 1))),
       ((total_r, 4), CText (sum_formula (u ''D'') start (total_r - 1))),
       ((total_r, 5), CText (sum_formula (u ''E'') start (total_r - 1))),
       ((total_r, 6), CText (u ''=IFERROR(B'' @ str_nat total_r @ u ''/C'' @ str_nat total_r @ u '',0)''))])"

definition client_headers :: "pystr list" where
  "client_headers = [u ''Cliente'', u ''Receita (R$)'', u ''Vendas'', u ''Pendentes'',
     u ''Canceladas'', u ''Ticket M'' @ [233] @ u ''dio (R$)'', [218] @ u ''ltima Venda'']"

definition clients_sheet :: "pystr list \<Rightarrow> ((nat \<times> nat) \<times> cell) list" where
  "clients_sheet names =
     map (\<lambda>(i, h). ((4, Suc i), CText h)) (enumerate 0 client_headers)
     @ concat (client_rows names) @ total_row names"

section \<open>The dashboard\<close>

text \<open>The six aggregates, in S6 to S11 (column S is column 19).\<close>

definition kpi_cells :: "((nat \<times> nat) \<times> cell) list" where
  \<open>kpi_cells =
     [((6, 19), CText (u ''=SUMIFS(Dados!$F:$F,Dados!$D:$D,"vendida")'')),
      ((7, 19), CText (u ''=COUNTIF(Dados!$D:$D,"vendida")'')),
      ((8, 19), CText (u ''=COUNTIF(Dados!$D:$D,"pendente")'')),
      ((9, 19), CText (u ''=COUNTIF(Dados!$D:$D,"cancelada")'')),
      ((10, 19), CText (u ''=IFERROR(S6/S7,0)'')),
      ((11, 19), CText (u ''=IFERROR(S7/(S7+S8+S9),0)''))]\<close>

text \<open>
  \<^verbatim>\<open>kpi_card(ws, top, left, title, formula_cell, icon)\<close> shows an aggregate: the merged
  cell at (top + 1, left) holds \<^verbatim>\<open>f"={formula_cell}"\<close>. Title and caption are
  decoration.
\<close>

definition kpi_card :: "nat \<Rightarrow> nat \<Rightarrow> pystr \<Rightarrow> ((nat \<times> nat) \<times> cell) list" where
  "kpi_card top_r left_c formula_cell = [((top_r + 1, left_c), CText (u ''='' @ formula_cell))]"

definition kpi_cards :: "((nat \<times> nat) \<times> cell) list" where
  "kpi_cards =
     kpi_card 6 2 (u ''Dashboard!$S$6'') @ kpi_card 6 7 (u ''Dashboard!$S$7'')
     @ kpi_card 6 12 (u ''Dashboard!$S$8'') @ kpi_card 14 2 (u ''Dashboard!$S$10'')
     @ kpi_card 14 7 (u ''Dashboard!$S$11'') @ kpi_card 14 12 (u ''Dashboard!$S$9'')"

text \<open>
  The ranges of the trend table:
  \<^verbatim>\<open>a_rng = f'Dados!$A$2:$A${max_row}'\<close>, and the same for columns D, F and E.
\<close>

definition data_rng :: "pystr \<Rightarrow> nat \<Rightarrow> nat \<Rightarrow> pystr" where
  "data_rng c first_r last_r =
     u ''Dados!$'' @ c @ u ''$'' @ str_nat first_r @ u '':$'' @ c @ u ''$'' @ str_nat last_r"

definition a_rng :: "nat \<Rightarrow> pystr" where
  "a_rng mr = data_rng (u ''A'') 2 mr"

definition d_rng :: "nat \<Rightarrow> pystr" where
  "d_rng mr = data_rng (u ''D'') 2 mr"

definition f_rng :: "nat \<Rightarrow> pystr" where
  "f_rng mr = data_rng (u ''F'') 2 mr"

definition canal_rng :: "nat \<Rightarrow> pystr" where
  "canal_rng mr = data_rng (u ''E'') 2 mr"

definition base_row :: nat where
  "base_row = 24"

definition month_is :: "nat \<Rightarrow> nat \<Rightarrow> pystr" where
  \<open>month_is mr r = u ''(TEXT('' @ a_rng mr @ u '',"yyyy-mm")=B'' @ str_nat r @ u '')''\<close>

definition status_is :: "nat \<Rightarrow> pystr \<Rightarrow> pystr" where
  \<open>status_is mr s = u ''('' @ d_rng mr @ u ''="'' @ s @ u ''")''\<close>

definition trend_row :: "nat \<Rightarrow> nat \<Rightarrow> ((nat \<times> nat) \<times> cell) list" where
  \<open>trend_row mr i =
     (let r = base_row + i in
      [((r, 2), CText (u ''=TEXT(EDATE(TODAY(),-'' @ str_nat (11 - i) @ u ''),"yyyy-mm")'')),
       ((r, 3), CText (u ''=SUMPRODUCT('' @ month_is mr r @ u ''*'' @ status_is mr (u ''vendida'')
                        @ u ''*('' @ f_rng mr @ u ''))'')),
       ((r, 4), CText (u ''=SUMPRODUCT('' @ month_is mr r @ u ''*'' @ status_is mr (u ''vendida'') @ u '')'')),
       ((r, 5), CText (u ''=SUMPRODUCT('' @ month_is mr r @ u ''*'' @ status_is mr (u ''pendente'') @ u '')'')),
       ((r, 6), CText (u ''=SUMPRODUCT('' @ month_is mr r @ u ''*'' @ status_is mr (u ''cancelada'') @ u '')'')),
       ((r, 7), CText (u ''=SUMPRODUCT('' @ month_is mr r @ u ''*'' @ status_is mr (u ''vendida'')
                        @ u ''*('' @ canal_rng mr @ u ''="Pix")*('' @ f_rng mr @ u ''))''))])\<close>

definition series_headers :: "pystr list" where
  "series_headers = [u ''M'' @ [234] @ u ''s'', u ''Receita (R$)'', u ''Vendidas'', u ''Pendentes'',
     u ''Canceladas'', u ''Pix (R$)'']"

definition trend_table :: "nat \<Rightarrow> ((nat \<times> nat) \<times> cell) list" where
  "trend_table mr =
     map (\<lambda>(i, h). ((23, i), CText h)) (enumerate 2 series_headers)
     @ concat (map (trend_row mr) [0..<12])"

definition status_table :: "((nat \<times> nat) \<times> cell) list" where
  "status_table =
     [((37, 2), CText (u ''Status'')), ((37, 3), CText (u ''Qtd'')),
      ((38, 2), CText (u ''Vendida'')), ((38, 3), CText (u ''=Dashboard!$S$7'')),
      ((39, 2), CText (u ''Pendente'')), ((39, 3), CText (u ''=Dashboard!$S$8'')),
      ((40, 2), CText (u ''Cancelada'')), ((40, 3), CText (u ''=Dashboard!$S$9''))]"

text \<open>
  \<^verbatim>\<open>
  sorted_clients = sorted(names,
      key=lambda n: sum((r[5] for r in rows if r[1] == n and r[3] == "vendida")),
      reverse=True)
  \<close>
  The key of a client is what \<^verbatim>\<open>sum\<close> returns on the values of its sold rows, taken
  in row order. With \<^verbatim>\<open>reverse=True\<close> the interpreter reverses the list, sorts it
  stably in ascending order of the key and reverses the result.
\<close>

definition sold_revenue :: "builtins \<Rightarrow> row list \<Rightarrow> pystr \<Rightarrow> rat" where
  "sold_revenue B rows n =
     float_sum B (map r_value (filter (\<lambda>r. r_client r = n \<and> r_status r = vendida) rows))"

definition sorted_clients :: "builtins \<Rightarrow> row list \<Rightarrow> pystr list" where
  "sorted_clients B rows = rev (sort_key (sold_revenue B rows) (rev (names_of rows)))"

text \<open>
  \<^verbatim>\<open>
  for i in range(10):
      rr = 44 + i
      if i < len(sorted_clients):
          name = sorted_clients[i]
          ws_dash[f"I{rr}"] = name
          ws_dash[f"J{rr}"] = f'=SUMIFS(Dados!$F:$F,Dados!$B:$B,I{rr},Dados!$D:$D,"vendida")'
          ws_dash[f"K{rr}"] = f'=COUNTIFS(Dados!$B:$B,I{rr},Dados!$D:$D,"vendida")'
  \<close>
  Columns I, J and K are 9, 10 and 11. A slot past the last client gets borders only.
\<close>

definition top10_slot :: "pystr list \<Rightarrow> nat \<Rightarrow> ((nat \<times> nat) \<times> cell) list" where
  \<open>top10_slot sc i =
     (let rr = 44 + i in
      if i < length sc then
        [((rr, 9), CText (sc ! i)),
         ((rr, 10), CText (u ''=SUMIFS(Dados!$F:$F,Dados!$B:$B,I'' @ str_nat rr @ u '',Dados!$D:$D,"vendida")'')),
         ((rr, 11), CText (u ''=COUNTIFS(Dados!$B:$B,I'' @ str_nat rr @ u '',Dados!$D:$D,"vendida")''))]
      else [])\<close>

definition top10 :: "pystr list \<Rightarrow> ((nat \<times> nat) \<times> cell) list list" where
  "top10 sc = map (top10_slot sc) [0..<10]"

definition top10_headers :: "((nat \<times> nat) \<times> cell) list" where
  "top10_headers =
     [((43, 9), CText (u ''Cliente'')), ((43, 10), CText (u ''Receita (R$)'')),
      ((43, 11), CText (u ''Vendas''))]"

definition dash_sheet :: "builtins \<Rightarrow> row list \<Rightarrow> ((nat \<times> nat) \<times> cell) list" where
  "dash_sheet B rows =
     kpi_cells @ kpi_cards @ trend_table (max_row rows) @ status_table @ top10_headers
     @ concat (top10 (sorted_clients B rows))"

section \<open>The program\<close>

definition config_sheet :: "builtins \<Rightarrow> ((nat \<times> nat) \<times> cell) list" where
  "config_sheet B =
     [((3, 1), CText (u ''Moeda'')), ((3, 2), CText (u ''BRL'')),
      ((4, 1), CText (u ''Per'' @ [237] @ u ''odo (meses)'')), ((4, 2), CInt 12),
      ((5, 1), CText (u ''Ano base'')), ((5, 2), CInt (int (fst (today B))))]"

record workbook =
  ws_dash :: "((nat \<times> nat) \<times> cell) list"
  ws_data :: "cell list list"
  data_formats :: "pystr list"
  ws_clients :: "((nat \<times> nat) \<times> cell) list"
  ws_cfg :: "((nat \<times> nat) \<times> cell) list"

definition build :: "builtins \<Rightarrow> row list \<Rightarrow> workbook" where
  "build B rows =
     \<lparr> ws_dash = dash_sheet B rows,
       ws_data = data_sheet rows,
       data_formats = cond_format_ranges (max_row rows),
       ws_clients = clients_sheet (names_of rows),
       ws_cfg = config_sheet B \<rparr>"

text \<open>
  \<^verbatim>\<open>for p in proposals\<close>: a list gives its items, a dictionary its keys, a string its
  characters; anything else is not iterable.
\<close>

fun py_iter :: "pyval \<Rightarrow> error + pyval list" where
  "py_iter (VList xs) = Inr xs"
| "py_iter (VDict kv) = Inr (map (\<lambda>(k, v). VStr k) kv)"
| "py_iter (VStr s) = Inr (map (\<lambda>c. VStr [c]) s)"
| "py_iter v = Inl TypeError"

text \<open>
  \<^verbatim>\<open>
  payload = json.loads(sys.stdin.read() or "{}")
  proposals = payload.get("proposals", [])
  \<close>
\<close>

definition read_payload :: "builtins \<Rightarrow> pystr \<Rightarrow> error + pyval" where
  "read_payload B stdin = json_loads B (if stdin = [] then u ''{}'' else stdin)"

definition proposals_of :: "pyval \<Rightarrow> error + pyval" where
  "proposals_of payload =
     (case payload of
        VDict kv \<Rightarrow> Inr (py_get kv (u ''proposals'') (VList []))
      | _ \<Rightarrow> Inl AttributeError)"

text \<open>
  A run ends in one of three ways: the usage message and exit code 2, an exception
  caught by the handler around \<^verbatim>\<open>main()\<close> and exit code 1, or the workbook saved
  at the path given. What the spreadsheet library itself may raise while cells are
  written or the file is saved is not modelled.
\<close>

datatype outcome = Usage | Failed error | Saved pystr workbook

definition main :: "builtins \<Rightarrow> pystr list \<Rightarrow> pystr \<Rightarrow> outcome" where
  "main B argv stdin =
     (if length argv < 2 then Usage
      else
        (case read_payload B stdin of
           Inl e \<Rightarrow> Failed e
         | Inr payload \<Rightarrow>
            (case proposals_of payload of
               Inl e \<Rightarrow> Failed e
             | Inr proposals \<Rightarrow>
                (case py_iter proposals of
                   Inl e \<Rightarrow> Failed e
                 | Inr ps \<Rightarrow>
                    (case derive_rows B ps of
                       Inl e \<Rightarrow> Failed e
                     | Inr rows \<Rightarrow> Saved (argv ! 1) (build B rows))))))"

section \<open>What the aggregate formulas compute\<close>

text \<open>
  The workbook holds formulas as text, and the spreadsheet application computes them
  when the file is opened. To say what the six aggregates are worth, the formulas of
  S6 to S11 are given as terms, \<open>render\<close> writes a term as the text of the formula,
  and \<open>eval\<close> gives the functions they use their documented meaning: SUMIFS adds the
  numbers of the sum column in the rows whose criteria cell meets the criterion, COUNTIF
  counts those rows, a division by zero is an error value and IFERROR replaces an error
  value by its second argument. A whole-column reference covers every row of the data
  sheet, the header row too.

  How the application compares a cell with a text criterion (letter case, for one) and
  which number a date cell stands for are its own business: both are parameters.
\<close>

datatype fexpr =
    Num int
  | Ref pystr nat
  | Paren fexpr
  | Div fexpr fexpr
  | Add fexpr fexpr
  | IFERROR fexpr fexpr
  | SUMIFS pystr pystr pystr
  | COUNTIF pystr pystr
















section \<open>Sample built-ins\<close>

text \<open>
  To run the model on concrete inputs, the parameters are given the behaviour of the
  Python built-ins on plain ASCII text: \<^verbatim>\<open>float\<close> on signed decimal numerals
  without exponent, \<^verbatim>\<open>int\<close> on signed digit strings, \<^verbatim>\<open>fromisoformat\<close> on
  \<^verbatim>\<open>YYYY-MM-DD\<close> alone or followed by \<^verbatim>\<open>T\<close> or a space and \<^verbatim>\<open>HH:MM:SS\<close> with an
  optional \<^verbatim>\<open>+HH:MM\<close> or \<^verbatim>\<open>-HH:MM\<close>, and \<^verbatim>\<open>json.loads\<close> on the empty object.
  Any other text is rejected by the sample, its \<^verbatim>\<open>repr\<close> is empty and its
  \<^verbatim>\<open>sum\<close> is exact; no example below depends on that.
\<close>

definition is_digit :: "nat \<Rightarrow> bool" where
  "is_digit c \<longleftrightarrow> 48 \<le> c \<and> c \<le> 57"

definition digits_val :: "pystr \<Rightarrow> nat" where
  "digits_val s = foldl (\<lambda>a c. 10 * a + (c - 48)) 0 s"

definition split_sign :: "pystr \<Rightarrow> bool \<times> pystr" where
  "split_sign s =
     (case s of
        [] \<Rightarrow> (False, [])
      | c # t \<Rightarrow> if c = 45 then (True, t) else if c = 43 then (False, t) else (False, s))"

definition sample_float :: "pystr \<Rightarrow> error + rat" where
  "sample_float s =
     (let (neg, body) = split_sign (strip s);
          ip = takeWhile is_digit body;
          rest = dropWhile is_digit body;
          fp = (case rest of [] \<Rightarrow> Some [] | c # t \<Rightarrow> if c = 46 then Some t else None)
      in case fp of
           None \<Rightarrow> Inl ValueError
         | Some fd \<Rightarrow>
            if list_all is_digit fd \<and> (ip \<noteq> [] \<or> fd \<noteq> [])
            then Inr ((if neg then - 1 else 1) * (of_nat (digits_val (ip @ fd)) / 10 ^ length fd))
            else Inl ValueError)"

definition sample_int :: "pystr \<Rightarrow> error + int" where
  "sample_int s =
     (let (neg, body) = split_sign (strip s)
      in if body \<noteq> [] \<and> list_all is_digit body
         then Inr ((if neg then - 1 else 1) * int (digits_val body))
         else Inl ValueError)"

definition days_in_month :: "nat \<Rightarrow> nat \<Rightarrow> nat" where
  "days_in_month y m =
     (if m = 2 then (if y mod 4 = 0 \<and> (y mod 100 \<noteq> 0 \<or> y mod 400 = 0) then 29 else 28)
      else if m = 4 \<or> m = 6 \<or> m = 9 \<or> m = 11 then 30 else 31)"

definition number_at :: "pystr \<Rightarrow> nat \<Rightarrow> nat \<Rightarrow> nat option" where
  "number_at s i n =
     (let t = take n (drop i s)
      in if length t = n \<and> list_all is_digit t then Some (digits_val t) else None)"

definition sample_date :: "pystr \<Rightarrow> date option" where
  "sample_date s =
     (case (number_at s 0 4, number_at s 5 2, number_at s 8 2) of
        (Some y, Some m, Some d) \<Rightarrow>
          if length s = 10 \<and> s ! 4 = 45 \<and> s ! 7 = 45 \<and> 1 \<le> y \<and> 1 \<le> m \<and> m \<le> 12
             \<and> 1 \<le> d \<and> d \<le> days_in_month y m
          then Some (y, m, d) else None
      | _ \<Rightarrow> None)"

definition sample_clock :: "pystr \<Rightarrow> nat option" where
  "sample_clock s =
     (case (number_at s 0 2, number_at s 3 2, number_at s 6 2) of
        (Some h, Some m, Some sec) \<Rightarrow>
          if length s = 8 \<and> s ! 2 = 58 \<and> s ! 5 = 58 \<and> h < 24 \<and> m < 60 \<and> sec < 60
          then Some (3600 * h + 60 * m + sec) else None
      | _ \<Rightarrow> None)"

definition sample_offset :: "pystr \<Rightarrow> bool" where
  "sample_offset s =
     (s = [] \<or>
      (case (number_at s 1 2, number_at s 4 2) of
         (Some h, Some m) \<Rightarrow>
           length s = 6 \<and> (s ! 0 = 43 \<or> s ! 0 = 45) \<and> s ! 3 = 58 \<and> h < 24 \<and> m < 60
       | _ \<Rightarrow> False))"

definition sample_fromisoformat :: "pystr \<Rightarrow> error + datetime" where
  "sample_fromisoformat s =
     (case sample_date (take 10 s) of
        None \<Rightarrow> Inl ValueError
      | Some d \<Rightarrow>
         (case drop 10 s of
            [] \<Rightarrow> Inr (d, 0)
          | c # t \<Rightarrow>
             (case sample_clock (take 8 t) of
                None \<Rightarrow> Inl ValueError
              | Some secs \<Rightarrow>
                 if (c = 84 \<or> c = 32) \<and> sample_offset (drop 8 t) then Inr (d, secs)
                 else Inl ValueError)))"

definition sample :: builtins where
  "sample =
     \<lparr> today = (2026, 11, 4),
       fromisoformat = sample_fromisoformat,
       float_of_str = sample_float,
       int_of_str = sample_int,
       repr = (\<lambda>v. []),
       json_loads = (\<lambda>s. if s = u ''{}'' then Inr (VDict []) else Inl JSONDecodeError),
       float_sum = sum_list \<rparr>"







text \<open>A row with a given client, status and value, for the examples.\<close>

definition sample_row :: "pystr \<Rightarrow> pystr \<Rightarrow> rat \<Rightarrow> row" where
  "sample_row c s v =
     \<lparr> r_date = (2024, 3, 1), r_client = c, r_title = u ''Contrato #0'', r_status = s,
       r_channel = u ''Pix'', r_value = v,
       r_paid = (if s = vendida then u ''Sim'' else u ''N'' @ [227] @ u ''o''),
       r_seller = u ''Ana'', r_category = u ''Mensalidade'', r_uf = u ''PR'' \<rparr>"

section \<open>Evaluation rules for the sample built-ins\<close>

lemmas text_defs = u_def strip_def is_space_def clean_def replace_Z_def str_int_def str_nat.simps

lemmas sample_defs = sample_def sample_float_def sample_int_def split_sign_def
  sample_fromisoformat_def sample_date_def sample_clock_def sample_offset_def number_at_def
  is_digit_def digits_val_def days_in_month_def

section \<open>The parsers\<close>

lemma dropWhile_all: "\<forall>x\<in>set s. P x \<Longrightarrow> dropWhile P s = []"
  by (induction s) auto

lemma strip_all_space: "list_all is_space s \<Longrightarrow> strip s = []"
  by (simp add: strip_def list_all_iff dropWhile_all)

lemma parse_date_not_date:
  "\<not> is_date raw \<Longrightarrow>
   parse_date B raw =
     Inr (case fromisoformat B (replace_Z (py_str B raw)) of Inr dt \<Rightarrow> fst dt | Inl e \<Rightarrow> today B)"
  unfolding parse_date_def is_date_def
  by (cases raw; cases "fromisoformat B (replace_Z (py_str B raw))") auto

lemma parse_date_total: "\<exists>d. parse_date B raw = Inr d"
proof (cases "is_date raw")
  case True
  then obtain d where "raw = VDate d"
    by (cases raw) (simp_all add: is_date_def)
  then have "parse_date B raw = Inr d"
    by (simp add: parse_date_def)
  then show ?thesis
    by (rule exI)
next
  case False
  then show ?thesis
    using parse_date_not_date [of raw B] by blast
qed

lemma replace_Z_append: "replace_Z (s @ t) = replace_Z s @ replace_Z t"
  by (simp add: replace_Z_def)

text \<open>
  C9. \<^verbatim>\<open>parse_value\<close> gives 0.0 for \<^verbatim>\<open>None\<close> and for text that is empty once
  stripped (so for whitespace only); otherwise it removes every full stop from the
  stripped text, turns every comma into a full stop and hands the result to
  \<^verbatim>\<open>float\<close>. The text \<^verbatim>\<open>1.234,56\<close> is cleaned to \<^verbatim>\<open>1234.56\<close>, so it is worth
  1234.56 as soon as \<^verbatim>\<open>float\<close> reads that numeral.
\<close>

theorem parse_value_spec:
  "parse_value B VNone = Inr 0
   \<and> (strip (py_str B raw) = [] \<longrightarrow> parse_value B raw = Inr 0)
   \<and> (list_all is_space s \<longrightarrow> parse_value B (VStr s) = Inr 0)
   \<and> (raw \<noteq> VNone \<and> strip (py_str B raw) \<noteq> [] \<longrightarrow>
        parse_value B raw =
          float_of_str B (map (\<lambda>c. if c = 44 then 46 else c)
                            (filter (\<lambda>c. c \<noteq> 46) (strip (py_str B raw)))))
   \<and> clean (strip (u ''1.234,56'')) = u ''1234.56''
   \<and> (float_of_str B (u ''1234.56'') = Inr (123456 / 100) \<longrightarrow>
        parse_value B (VStr (u ''1.234,56'')) = Inr (123456 / 100))"
proof -
  have ex: "strip (u ''1.234,56'') = u ''1.234,56''"
    by (simp add: strip_def u_def is_space_def)
  have cl: "clean (u ''1.234,56'') = u ''1234.56''"
    by (simp add: clean_def u_def)
  have ne: "u ''1.234,56'' \<noteq> []"
    by (simp add: u_def)
  have a: "parse_value B VNone = Inr 0"
    by (simp add: parse_value_def)
  have b: "strip (py_str B raw) = [] \<longrightarrow> parse_value B raw = Inr 0"
    by (simp add: parse_value_def)
  have c: "list_all is_space s \<longrightarrow> parse_value B (VStr s) = Inr 0"
    by (simp add: parse_value_def strip_all_space)
  have d: "raw \<noteq> VNone \<and> strip (py_str B raw) \<noteq> [] \<longrightarrow>
        parse_value B raw =
          float_of_str B (map (\<lambda>c. if c = 44 then 46 else c)
                            (filter (\<lambda>c. c \<noteq> 46) (strip (py_str B raw))))"
    by (simp add: parse_value_def clean_def)
  have e: "float_of_str B (u ''1234.56'') = Inr (123456 / 100) \<longrightarrow>
        parse_value B (VStr (u ''1.234,56'')) = Inr (123456 / 100)"
    by (simp add: parse_value_def ex cl ne)
  show ?thesis
    using a b c d e by (simp add: ex cl)
qed

theorem parse_value_spec_witness:
  "parse_value sample VNone = Inr 0
   \<and> parse_value sample (VStr (u ''  '')) = Inr 0
   \<and> parse_value sample (VStr (u ''1.234,56'')) = Inr (123456 / 100)
   \<and> parse_value sample (VInt 1500) = Inr 1500"
proof -
  have f: "float_of_str sample (u ''1234.56'') = Inr (123456 / 100)"
    by (simp add: sample_defs text_defs)
  have sp: "list_all is_space (u ''  '')"
    by (simp add: u_def is_space_def)
  have i: "VInt 1500 \<noteq> VNone \<and> strip (py_str sample (VInt 1500)) \<noteq> []"
    by (simp add: text_defs)
  have j: "float_of_str sample (map (\<lambda>c. if c = 44 then 46 else c)
             (filter (\<lambda>c. c \<noteq> 46) (strip (py_str sample (VInt 1500))))) = Inr 1500"
    by (simp add: sample_defs text_defs)
  show ?thesis
    using parse_value_spec [of sample "VInt 1500" "u ''  ''"] f sp i j by simp
qed

text \<open>
  C8. \<^verbatim>\<open>parse_date\<close> returns a native date as it is. For any other value it replaces
  \<^verbatim>\<open>Z\<close> by \<^verbatim>\<open>+00:00\<close> in the text of the value (a trailing \<^verbatim>\<open>Z\<close> becomes a trailing
  \<^verbatim>\<open>+00:00\<close>) and returns the date of what \<^verbatim>\<open>fromisoformat\<close> reads; when that raises,
  it returns today's date. It returns a date for every input and raises for none.
\<close>

theorem parse_date_spec:
  "parse_date B (VDate d) = Inr d
   \<and> (\<exists>d'. parse_date B raw = Inr d')
   \<and> (\<not> is_date raw \<and> fromisoformat B (replace_Z (py_str B raw)) = Inr dt \<longrightarrow>
        parse_date B raw = Inr (fst dt))
   \<and> (\<not> is_date raw \<and> fromisoformat B (replace_Z (py_str B raw)) = Inl e \<longrightarrow>
        parse_date B raw = Inr (today B))
   \<and> replace_Z (s @ u ''Z'') = replace_Z s @ u ''+00:00''"
proof -
  have a: "parse_date B (VDate d) = Inr d"
    by (simp add: parse_date_def)
  have z: "replace_Z (u ''Z'') = u ''+00:00''"
    by (simp add: replace_Z_def u_def)
  have b: "\<not> is_date raw \<and> fromisoformat B (replace_Z (py_str B raw)) = Inr dt \<longrightarrow>
        parse_date B raw = Inr (fst dt)"
    by (simp add: parse_date_not_date)
  have c: "\<not> is_date raw \<and> fromisoformat B (replace_Z (py_str B raw)) = Inl e \<longrightarrow>
        parse_date B raw = Inr (today B)"
    by (simp add: parse_date_not_date)
  show ?thesis
    using a b c parse_date_total [of B raw] by (simp add: replace_Z_append z)
qed

theorem parse_date_spec_witness:
  "parse_date sample (VDate (2024, 3, 1)) = Inr (2024, 3, 1)
   \<and> parse_date sample (VStr (u ''2024-03-01'')) = Inr (2024, 3, 1)
   \<and> parse_date sample (VStr (u ''2024-03-01T10:00:00Z'')) = Inr (2024, 3, 1)
   \<and> parse_date sample (VStr (u ''not-a-date'')) = Inr (today sample)"
proof -
  have n1: "\<not> is_date (VStr (u ''2024-03-01''))"
    and n2: "\<not> is_date (VStr (u ''2024-03-01T10:00:00Z''))"
    and n3: "\<not> is_date (VStr (u ''not-a-date''))"
    by (simp_all add: is_date_def)
  have f1: "fromisoformat sample (replace_Z (py_str sample (VStr (u ''2024-03-01''))))
             = Inr ((2024, 3, 1), 0)"
    by (simp add: sample_defs text_defs)
  have f2: "fromisoformat sample (replace_Z (py_str sample (VStr (u ''2024-03-01T10:00:00Z''))))
             = Inr ((2024, 3, 1), 36000)"
    by (simp add: sample_defs text_defs)
  have f3: "fromisoformat sample (replace_Z (py_str sample (VStr (u ''not-a-date''))))
             = Inl ValueError"
    by (simp add: sample_defs text_defs)
  show ?thesis
    using parse_date_spec [of sample "(2024, 3, 1)" "VStr (u ''2024-03-01'')" "((2024, 3, 1), 0)" ValueError "[]"]
      parse_date_spec [of sample "(2024, 3, 1)" "VStr (u ''2024-03-01T10:00:00Z'')" "((2024, 3, 1), 36000)" ValueError "[]"]
      parse_date_spec [of sample "(2024, 3, 1)" "VStr (u ''not-a-date'')" "((2024, 3, 1), 0)" ValueError "[]"]
      n1 n2 n3 f1 f2 f3
    by simp
qed

section \<open>Row derivation\<close>

lemma table_lengths:
  "length channels = 3" "length sellers = 4" "length cats = 4" "length ufs = 4"
  by (simp_all add: channels_def sellers_def cats_def ufs_def)

lemma derive_row_Inr:
  assumes "derive_row B p = Inr r"
  obtains kv pid d v where "p = VDict kv" "pid_of B kv = Inr pid"
    "parse_date B (py_get kv (u ''createdAt'') VNone) = Inr d"
    "parse_value B (py_get kv (u ''value'') VNone) = Inr v" "r = mk_row B kv pid d v"
  using assms unfolding derive_row_def
  by (auto split: pyval.splits sum.splits)

lemma derive_row_dict:
  "derive_row B (VDict kv) =
     (case pid_of B kv of
        Inl e \<Rightarrow> Inl e
      | Inr pid \<Rightarrow>
         (case parse_value B (py_get kv (u ''value'') VNone) of
            Inl e \<Rightarrow> Inl e
          | Inr v \<Rightarrow>
             Inr (mk_row B kv pid
                   (case parse_date B (py_get kv (u ''createdAt'') VNone) of
                      Inr d \<Rightarrow> d | Inl e \<Rightarrow> today B) v)))"
  using parse_date_total [of B "py_get kv (u ''createdAt'') VNone"]
  by (auto simp: derive_row_def split: sum.splits)

lemma derive_row_ok_iff:
  "(\<exists>r. derive_row B p = Inr r) \<longleftrightarrow>
   (\<exists>kv. p = VDict kv \<and> (\<exists>pid. pid_of B kv = Inr pid)
          \<and> (\<exists>v. parse_value B (py_get kv (u ''value'') VNone) = Inr v))"
proof
  assume "\<exists>r. derive_row B p = Inr r"
  then obtain r where "derive_row B p = Inr r" ..
  then show "\<exists>kv. p = VDict kv \<and> (\<exists>pid. pid_of B kv = Inr pid)
          \<and> (\<exists>v. parse_value B (py_get kv (u ''value'') VNone) = Inr v)"
    by (elim derive_row_Inr) blast
next
  assume "\<exists>kv. p = VDict kv \<and> (\<exists>pid. pid_of B kv = Inr pid)
          \<and> (\<exists>v. parse_value B (py_get kv (u ''value'') VNone) = Inr v)"
  then obtain kv pid v where "p = VDict kv" "pid_of B kv = Inr pid"
    "parse_value B (py_get kv (u ''value'') VNone) = Inr v"
    by blast
  then show "\<exists>r. derive_row B p = Inr r"
    by (simp add: derive_row_dict)
qed

lemma derive_all_ok_iff:
  "(\<exists>rs. derive_all B ps = Inr rs) \<longleftrightarrow> (\<forall>p\<in>set ps. \<exists>r. derive_row B p = Inr r)"
  by (induction ps) (auto split: sum.splits)

lemma derive_all_length: "derive_all B ps = Inr rs \<Longrightarrow> length rs = length ps"
  by (induction ps arbitrary: rs) (auto split: sum.splits)

lemma derive_all_nth:
  "derive_all B ps = Inr rs \<Longrightarrow> i < length ps \<Longrightarrow> derive_row B (ps ! i) = Inr (rs ! i)"
proof (induction ps arbitrary: rs i)
  case Nil
  then show ?case by simp
next
  case (Cons p ps)
  then show ?case
    by (cases i) (auto split: sum.splits)
qed

lemma derive_all_first_failure:
  "derive_all B ps = Inr rs \<Longrightarrow> derive_row B p = Inl e \<Longrightarrow> derive_all B (ps @ p # qs) = Inl e"
  by (induction ps arbitrary: rs) (auto split: sum.splits)

lemma derive_rows_ok_iff:
  "(\<exists>rows. derive_rows B ps = Inr rows) \<longleftrightarrow> (\<exists>rs. derive_all B ps = Inr rs)"
  by (auto simp: derive_rows_def split: sum.splits)

lemma round2_zero: "round2 0 = 0"
  by (simp add: round2_def round_half_even_def)

text \<open>
  C4. The channel, seller, category and region of a derived row are read from the fixed
  tables at the indices id mod 3, (id + 1) mod 4, (id + 2) mod 4 and (id + 3) mod 4,
  where id is the integer the proposal's \<^verbatim>\<open>id\<close> field converts to; the indices lie
  inside the tables. So a second proposal with the same integer id gets the same four
  fields, whatever else it holds.
\<close>

theorem synthetic_fields_by_id:
  assumes "derive_row B (VDict kv) = Inr r"
  shows "\<exists>pid. pid_of B kv = Inr pid
      \<and> r_channel r = channels ! nat (pid mod 3) \<and> nat (pid mod 3) < length channels
      \<and> r_seller r = sellers ! nat ((pid + 1) mod 4) \<and> nat ((pid + 1) mod 4) < length sellers
      \<and> r_category r = cats ! nat ((pid + 2) mod 4) \<and> nat ((pid + 2) mod 4) < length cats
      \<and> r_uf r = ufs ! nat ((pid + 3) mod 4) \<and> nat ((pid + 3) mod 4) < length ufs
      \<and> (\<forall>kv' r'. derive_row B (VDict kv') = Inr r' \<and> pid_of B kv' = Inr pid \<longrightarrow>
            r_channel r' = r_channel r \<and> r_seller r' = r_seller r
            \<and> r_category r' = r_category r \<and> r_uf r' = r_uf r)"
proof -
  from assms obtain pid d v where pid: "pid_of B kv = Inr pid" and r: "r = mk_row B kv pid d v"
    by (elim derive_row_Inr) auto
  have fields: "r_channel r = channels ! nat (pid mod 3)" "r_seller r = sellers ! nat ((pid + 1) mod 4)"
    "r_category r = cats ! nat ((pid + 2) mod 4)" "r_uf r = ufs ! nat ((pid + 3) mod 4)"
    by (simp_all add: r mk_row_def Let_def table_lengths)
  have bounds: "nat (pid mod 3) < length channels" "nat ((pid + 1) mod 4) < length sellers"
    "nat ((pid + 2) mod 4) < length cats" "nat ((pid + 3) mod 4) < length ufs"
    by (simp_all add: table_lengths nat_less_iff)
  have same: "r_channel r' = r_channel r \<and> r_seller r' = r_seller r
            \<and> r_category r' = r_category r \<and> r_uf r' = r_uf r"
    if "derive_row B (VDict kv') = Inr r'" "pid_of B kv' = Inr pid" for kv' r'
  proof -
    from that obtain d' v' where "r' = mk_row B kv' pid d' v'"
      by (elim derive_row_Inr) auto
    then show ?thesis
      by (simp add: r mk_row_def Let_def)
  qed
  show ?thesis
    using pid fields bounds same by blast
qed

lemmas derive_defs = derive_row_def pid_of_def py_get_def parse_date_def parse_value_def

theorem synthetic_fields_by_id_witness:
  "derive_row sample (VDict [(u ''id'', VInt 5), (u ''value'', VStr (u ''10,00''))])
     = Inr (mk_row sample [(u ''id'', VInt 5), (u ''value'', VStr (u ''10,00''))] 5 (2026, 11, 4) 10)
   \<and> derive_row sample (VDict [(u ''clientName'', VStr (u ''Ana'')), (u ''id'', VStr (u ''5''))])
     = Inr (mk_row sample [(u ''clientName'', VStr (u ''Ana'')), (u ''id'', VStr (u ''5''))] 5 (2026, 11, 4) 0)
   \<and> r_channel (mk_row sample [(u ''id'', VInt 5), (u ''value'', VStr (u ''10,00''))] 5 (2026, 11, 4) 10)
       = channels ! 2
   \<and> r_channel (mk_row sample [(u ''clientName'', VStr (u ''Ana'')), (u ''id'', VStr (u ''5''))] 5 (2026, 11, 4) 0)
       = r_channel (mk_row sample [(u ''id'', VInt 5), (u ''value'', VStr (u ''10,00''))] 5 (2026, 11, 4) 10)
   \<and> r_uf (mk_row sample [(u ''clientName'', VStr (u ''Ana'')), (u ''id'', VStr (u ''5''))] 5 (2026, 11, 4) 0)
       = r_uf (mk_row sample [(u ''id'', VInt 5), (u ''value'', VStr (u ''10,00''))] 5 (2026, 11, 4) 10)"
proof -
  let ?kv = "[(u ''id'', VInt 5), (u ''value'', VStr (u ''10,00''))]"
  let ?kv' = "[(u ''clientName'', VStr (u ''Ana'')), (u ''id'', VStr (u ''5''))]"
  have h: "derive_row sample (VDict ?kv) = Inr (mk_row sample ?kv 5 (2026, 11, 4) 10)"
    by (simp add: derive_defs sample_defs text_defs)
  have h': "derive_row sample (VDict ?kv') = Inr (mk_row sample ?kv' 5 (2026, 11, 4) 0)"
    by (simp add: derive_defs sample_defs text_defs)
  have p: "pid_of sample ?kv = Inr 5"
    by (simp add: derive_defs text_defs)
  have p': "pid_of sample ?kv' = Inr 5"
    by (simp add: derive_defs sample_defs text_defs)
  from synthetic_fields_by_id [OF h] p p' h' h show ?thesis
    by auto
qed

text \<open>
  C7. The rows come out in ascending order of date: each row's date is at most the date
  of the row after it. They are the rows derived from the proposals one by one, in input
  order, rearranged; the rows of any one date stand in the order of the input.
\<close>

theorem rows_sorted_by_date:
  assumes "derive_rows B ps = Inr rows"
  shows "(\<forall>i. Suc i < length rows \<longrightarrow> r_date (rows ! i) \<le> r_date (rows ! Suc i))
      \<and> (\<exists>us. derive_all B ps = Inr us \<and> length us = length ps
            \<and> (\<forall>i<length ps. derive_row B (ps ! i) = Inr (us ! i))
            \<and> length rows = length us \<and> set rows = set us
            \<and> (\<forall>d. filter (\<lambda>r. r_date r = d) rows = filter (\<lambda>r. r_date r = d) us))"
proof -
  from assms obtain us where us: "derive_all B ps = Inr us" and rows: "rows = sort_key r_date us"
    by (auto simp: derive_rows_def split: sum.splits)
  have "sorted (map r_date rows)"
    by (simp add: rows sorted_sort_key)
  then have adj: "\<forall>i. Suc i < length rows \<longrightarrow> r_date (rows ! i) \<le> r_date (rows ! Suc i)"
    by (simp add: sorted_iff_nth_Suc)
  have stable: "\<forall>d. filter (\<lambda>r. r_date r = d) rows = filter (\<lambda>r. r_date r = d) us"
    by (simp add: rows sort_key_stable)
  have "length us = length ps \<and> (\<forall>i<length ps. derive_row B (ps ! i) = Inr (us ! i))"
    using us by (simp add: derive_all_length derive_all_nth)
  moreover have "length rows = length us \<and> set rows = set us"
    by (simp add: rows)
  ultimately show ?thesis
    using us adj stable by blast
qed

theorem rows_sorted_by_date_witness:
  "derive_rows sample
     [VDict [(u ''id'', VInt 1), (u ''createdAt'', VStr (u ''2024-03-02''))],
      VDict [(u ''id'', VInt 2), (u ''createdAt'', VStr (u ''2024-03-01''))],
      VDict [(u ''id'', VInt 3), (u ''createdAt'', VStr (u ''2024-03-02''))]]
   = Inr [mk_row sample [(u ''id'', VInt 2), (u ''createdAt'', VStr (u ''2024-03-01''))] 2 (2024, 3, 1) 0,
          mk_row sample [(u ''id'', VInt 1), (u ''createdAt'', VStr (u ''2024-03-02''))] 1 (2024, 3, 2) 0,
          mk_row sample [(u ''id'', VInt 3), (u ''createdAt'', VStr (u ''2024-03-02''))] 3 (2024, 3, 2) 0]
   \<and> r_date (mk_row sample [(u ''id'', VInt 2), (u ''createdAt'', VStr (u ''2024-03-01''))] 2 (2024, 3, 1) 0)
       \<le> r_date (mk_row sample [(u ''id'', VInt 1), (u ''createdAt'', VStr (u ''2024-03-02''))] 1 (2024, 3, 2) 0)"
proof -
  let ?p1 = "[(u ''id'', VInt 1), (u ''createdAt'', VStr (u ''2024-03-02''))]"
  let ?p2 = "[(u ''id'', VInt 2), (u ''createdAt'', VStr (u ''2024-03-01''))]"
  let ?p3 = "[(u ''id'', VInt 3), (u ''createdAt'', VStr (u ''2024-03-02''))]"
  have r1: "derive_row sample (VDict ?p1) = Inr (mk_row sample ?p1 1 (2024, 3, 2) 0)"
    by (simp add: derive_defs sample_defs text_defs)
  have r2: "derive_row sample (VDict ?p2) = Inr (mk_row sample ?p2 2 (2024, 3, 1) 0)"
    by (simp add: derive_defs sample_defs text_defs)
  have r3: "derive_row sample (VDict ?p3) = Inr (mk_row sample ?p3 3 (2024, 3, 2) 0)"
    by (simp add: derive_defs sample_defs text_defs)
  have d: "r_date (mk_row sample kv pid dd v) = dd" for kv pid dd v
    by (simp add: mk_row_def Let_def)
  have h: "derive_rows sample [VDict ?p1, VDict ?p2, VDict ?p3]
     = Inr [mk_row sample ?p2 2 (2024, 3, 1) 0, mk_row sample ?p1 1 (2024, 3, 2) 0,
            mk_row sample ?p3 3 (2024, 3, 2) 0]"
    by (simp add: derive_rows_def r1 r2 r3 d)
  from rows_sorted_by_date [OF h] have
    "r_date ([mk_row sample ?p2 2 (2024, 3, 1) 0, mk_row sample ?p1 1 (2024, 3, 2) 0,
            mk_row sample ?p3 3 (2024, 3, 2) 0] ! 0)
     \<le> r_date ([mk_row sample ?p2 2 (2024, 3, 1) 0, mk_row sample ?p1 1 (2024, 3, 2) 0,
            mk_row sample ?p3 3 (2024, 3, 2) 0] ! Suc 0)"
    by auto
  with h show ?thesis
    by simp
qed

lemma derive_rows_completes_iff:
  "(\<exists>rows. derive_rows B ps = Inr rows) \<longleftrightarrow>
      (\<forall>p\<in>set ps. \<exists>kv. p = VDict kv \<and> (\<exists>pid. pid_of B kv = Inr pid)
          \<and> (\<exists>v. parse_value B (py_get kv (u ''value'') VNone) = Inr v))"
  by (simp only: derive_rows_ok_iff derive_all_ok_iff derive_row_ok_iff)

lemma value_error_propagates:
  assumes "derive_all B ps = Inr rs" "pid_of B kv = Inr pid"
    "parse_value B (py_get kv (u ''value'') VNone) = Inl e"
  shows "derive_rows B (ps @ VDict kv # qs) = Inl e"
proof -
  from assms have "derive_row B (VDict kv) = Inl e"
    by (simp add: derive_row_dict)
  with assms(1) have "derive_all B (ps @ VDict kv # qs) = Inl e"
    by (rule derive_all_first_failure)
  then show ?thesis
    by (simp add: derive_rows_def)
qed

lemma main_fails_with_derivation:
  assumes "2 \<le> length argv" "read_payload B stdin = Inr (VDict [(u ''proposals'', VList ps)])"
    "derive_rows B ps = Inl e"
  shows "main B argv stdin = Failed e"
  using assms by (simp add: main_def proposals_of_def py_get_def)

lemma row_defaults:
  assumes "derive_row B (VDict kv) = Inr r"
  shows "(map_of kv (u ''clientName'') = None \<longrightarrow> r_client r = [])
      \<and> (map_of kv (u ''status'') = None \<longrightarrow> r_status r = u ''pendente'')
      \<and> (map_of kv (u ''id'') = None \<longrightarrow> pid_of B kv = Inr 0)
      \<and> (map_of kv (u ''title'') = None \<longrightarrow>
           (\<exists>n. pid_of B kv = Inr n \<and> r_title r = u ''Contrato #'' @ str_int n))
      \<and> (map_of kv (u ''value'') = None \<longrightarrow> r_value r = 0)
      \<and> (\<not> is_date (py_get kv (u ''createdAt'') VNone)
          \<and> fromisoformat B (replace_Z (py_str B (py_get kv (u ''createdAt'') VNone))) = Inl e'
          \<longrightarrow> r_date r = today B)"
proof -
  from assms obtain n dd v where n: "pid_of B kv = Inr n"
    and dd: "parse_date B (py_get kv (u ''createdAt'') VNone) = Inr dd"
    and v: "parse_value B (py_get kv (u ''value'') VNone) = Inr v"
    and r: "r = mk_row B kv n dd v"
    by (elim derive_row_Inr) auto
  have 1: "map_of kv (u ''clientName'') = None \<longrightarrow> r_client r = []"
    by (simp add: r mk_row_def Let_def py_get_def)
  have 2: "map_of kv (u ''status'') = None \<longrightarrow> r_status r = u ''pendente''"
    by (simp add: r mk_row_def Let_def py_get_def)
  have 3: "map_of kv (u ''id'') = None \<longrightarrow> pid_of B kv = Inr 0"
    by (simp add: pid_of_def py_get_def)
  have 4: "map_of kv (u ''title'') = None \<longrightarrow>
           (\<exists>n. pid_of B kv = Inr n \<and> r_title r = u ''Contrato #'' @ str_int n)"
    using n by (simp add: r mk_row_def Let_def py_get_def)
  have 5: "map_of kv (u ''value'') = None \<longrightarrow> r_value r = 0"
  proof
    assume "map_of kv (u ''value'') = None"
    then have "parse_value B (py_get kv (u ''value'') VNone) = Inr 0"
      by (simp add: py_get_def parse_value_def)
    with v have "v = 0" by simp
    then show "r_value r = 0"
      by (simp add: r mk_row_def Let_def round2_zero)
  qed
  have 6: "\<not> is_date (py_get kv (u ''createdAt'') VNone)
          \<and> fromisoformat B (replace_Z (py_str B (py_get kv (u ''createdAt'') VNone))) = Inl e'
          \<longrightarrow> r_date r = today B"
  proof
    assume a: "\<not> is_date (py_get kv (u ''createdAt'') VNone)
          \<and> fromisoformat B (replace_Z (py_str B (py_get kv (u ''createdAt'') VNone))) = Inl e'"
    then have "parse_date B (py_get kv (u ''createdAt'') VNone) = Inr (today B)"
      by (simp add: parse_date_not_date)
    with dd have "dd = today B" by simp
    then show "r_date r = today B"
      by (simp add: r mk_row_def Let_def)
  qed
  from 1 2 3 4 5 6 show ?thesis
    by (intro conjI)
qed

text \<open>
  C1. Row derivation completes exactly when every record is an object whose
  \<^verbatim>\<open>id\<close> converts to an integer and whose \<^verbatim>\<open>value\<close> is \<^verbatim>\<open>None\<close>, blank, or cleans
  to text that \<^verbatim>\<open>float\<close> accepts. When \<^verbatim>\<open>parse_value\<close> raises on a record, nothing
  catches the exception during derivation: the rows before it are lost, no 0.0 is put
  in its place, and the run ends in the handler around \<^verbatim>\<open>main()\<close>. When a row is
  derived, an absent client name, status, id, title or value takes its default, and a
  date that fails to parse becomes today.
\<close>

theorem row_derivation_outcome:
  "((\<exists>rows. derive_rows B ps = Inr rows) \<longleftrightarrow>
      (\<forall>p\<in>set ps. \<exists>kv. p = VDict kv \<and> (\<exists>pid. pid_of B kv = Inr pid)
          \<and> (\<exists>v. parse_value B (py_get kv (u ''value'') VNone) = Inr v)))
   \<and> (derive_all B ps = Inr rs \<and> pid_of B kv = Inr pid
        \<and> parse_value B (py_get kv (u ''value'') VNone) = Inl e \<longrightarrow>
        derive_rows B (ps @ VDict kv # qs) = Inl e)
   \<and> (2 \<le> length argv \<and> read_payload B stdin = Inr (VDict [(u ''proposals'', VList ps)])
        \<and> derive_rows B ps = Inl e \<longrightarrow> main B argv stdin = Failed e)
   \<and> (derive_row B (VDict kv) = Inr r \<longrightarrow>
        (map_of kv (u ''clientName'') = None \<longrightarrow> r_client r = [])
      \<and> (map_of kv (u ''status'') = None \<longrightarrow> r_status r = u ''pendente'')
      \<and> (map_of kv (u ''id'') = None \<longrightarrow> pid_of B kv = Inr 0)
      \<and> (map_of kv (u ''title'') = None \<longrightarrow>
           (\<exists>n. pid_of B kv = Inr n \<and> r_title r = u ''Contrato #'' @ str_int n))
      \<and> (map_of kv (u ''value'') = None \<longrightarrow> r_value r = 0)
      \<and> (\<not> is_date (py_get kv (u ''createdAt'') VNone)
          \<and> fromisoformat B (replace_Z (py_str B (py_get kv (u ''createdAt'') VNone))) = Inl e'
          \<longrightarrow> r_date r = today B))"
proof (intro conjI)
  show "(\<exists>rows. derive_rows B ps = Inr rows) \<longleftrightarrow>
      (\<forall>p\<in>set ps. \<exists>kv. p = VDict kv \<and> (\<exists>pid. pid_of B kv = Inr pid)
          \<and> (\<exists>v. parse_value B (py_get kv (u ''value'') VNone) = Inr v))"
    by (rule derive_rows_completes_iff)
next
  show "derive_all B ps = Inr rs \<and> pid_of B kv = Inr pid
        \<and> parse_value B (py_get kv (u ''value'') VNone) = Inl e \<longrightarrow>
        derive_rows B (ps @ VDict kv # qs) = Inl e"
    using value_error_propagates [of B ps rs kv pid e qs] by simp
next
  show "2 \<le> length argv \<and> read_payload B stdin = Inr (VDict [(u ''proposals'', VList ps)])
        \<and> derive_rows B ps = Inl e \<longrightarrow> main B argv stdin = Failed e"
    using main_fails_with_derivation [of argv B stdin ps e] by simp
next
  show "derive_row B (VDict kv) = Inr r \<longrightarrow>
        (map_of kv (u ''clientName'') = None \<longrightarrow> r_client r = [])
      \<and> (map_of kv (u ''status'') = None \<longrightarrow> r_status r = u ''pendente'')
      \<and> (map_of kv (u ''id'') = None \<longrightarrow> pid_of B kv = Inr 0)
      \<and> (map_of kv (u ''title'') = None \<longrightarrow>
           (\<exists>n. pid_of B kv = Inr n \<and> r_title r = u ''Contrato #'' @ str_int n))
      \<and> (map_of kv (u ''value'') = None \<longrightarrow> r_value r = 0)
      \<and> (\<not> is_date (py_get kv (u ''createdAt'') VNone)
          \<and> fromisoformat B (replace_Z (py_str B (py_get kv (u ''createdAt'') VNone))) = Inl e'
          \<longrightarrow> r_date r = today B)"
    by (rule impI) (rule row_defaults)
qed

theorem row_derivation_outcome_witness:
  "derive_rows sample
     [VDict [], VDict [(u ''id'', VInt 7), (u ''value'', VStr (u ''R$ 10''))], VDict []]
     = Inl ValueError
   \<and> derive_row sample (VDict []) = Inr (mk_row sample [] 0 (2026, 11, 4) 0)
   \<and> r_client (mk_row sample [] 0 (2026, 11, 4) 0) = []
   \<and> r_status (mk_row sample [] 0 (2026, 11, 4) 0) = u ''pendente''
   \<and> r_value (mk_row sample [] 0 (2026, 11, 4) 0) = 0"
proof -
  let ?kv = "[(u ''id'', VInt 7), (u ''value'', VStr (u ''R$ 10''))]"
  let ?r = "mk_row sample [] 0 (2026, 11, 4) 0"
  have h: "derive_row sample (VDict []) = Inr ?r"
    by (simp add: derive_defs sample_defs text_defs)
  then have all: "derive_all sample [VDict []] = Inr [?r]"
    by simp
  have p: "pid_of sample ?kv = Inr 7"
    by (simp add: derive_defs)
  have v: "parse_value sample (py_get ?kv (u ''value'') VNone) = Inl ValueError"
    by (simp add: derive_defs sample_defs text_defs)
  note t1 = row_derivation_outcome [of sample "[VDict []]" "[?r]" ?kv 7 ValueError "[VDict []]"
      "[]" "[]" ?r ValueError]
  note t2 = row_derivation_outcome [of sample "[]" "[]" "[]" 0 ValueError "[]" "[]" "[]" ?r ValueError]
  have 1: "derive_rows sample ([VDict []] @ VDict ?kv # [VDict []]) = Inl ValueError"
    using t1 [THEN conjunct2, THEN conjunct1] all p v by simp
  have 2: "r_client ?r = [] \<and> r_status ?r = u ''pendente'' \<and> r_value ?r = 0"
    using t2 [THEN conjunct2, THEN conjunct2, THEN conjunct2] h by simp
  from 1 2 h show ?thesis
    by simp
qed

theorem value_abc_aborts_derivation:
  "derive_rows sample [VDict [(u ''value'', VStr (u ''abc''))]] = Inl ValueError"
  by (simp add: derive_rows_def derive_defs sample_defs text_defs)

section \<open>The client roster\<close>

lemma names_of_set: "set (names_of rows) = r_client ` set rows"
  by (simp add: names_of_def)

lemma names_of_distinct: "distinct (names_of rows)"
  by (simp add: names_of_def)

lemma names_of_sorted: "sorted (names_of rows)"
  by (simp add: names_of_def)

lemma client_rows_nth:
  "i < length names \<Longrightarrow> client_rows names ! i = client_row (5 + i) (names ! i)"
  by (simp add: client_rows_def nth_enumerate_eq start_def)

lemma client_row_hd: "hd (client_row r name) = ((r, 1), CText name)"
  by (simp add: client_row_def)

text \<open>
  C3. The client sheet has one aggregation row for each distinct client name of the row
  collection, the empty name included when a row has it: the names are distinct, they
  are exactly the names that occur, they ascend in lexicographic order, and the i-th of
  them fills row 5 + i, its column A holding the name.
\<close>

theorem client_roster:
  "set (names_of rows) = r_client ` set rows
   \<and> distinct (names_of rows)
   \<and> sorted (names_of rows)
   \<and> (\<forall>i j. i < j \<and> j < length (names_of rows) \<longrightarrow> names_of rows ! i < names_of rows ! j)
   \<and> length (client_rows (names_of rows)) = length (names_of rows)
   \<and> (\<forall>i<length (names_of rows).
         client_rows (names_of rows) ! i = client_row (5 + i) (names_of rows ! i)
         \<and> hd (client_row (5 + i) (names_of rows ! i)) = ((5 + i, 1), CText (names_of rows ! i)))"
proof (intro conjI)
  show "set (names_of rows) = r_client ` set rows"
    by (rule names_of_set)
  show "distinct (names_of rows)"
    by (rule names_of_distinct)
  show "sorted (names_of rows)"
    by (rule names_of_sorted)
  show "\<forall>i j. i < j \<and> j < length (names_of rows) \<longrightarrow> names_of rows ! i < names_of rows ! j"
  proof (intro allI impI)
    fix i j
    assume ij: "i < j \<and> j < length (names_of rows)"
    then have "names_of rows ! i \<le> names_of rows ! j"
      using names_of_sorted [of rows] by (simp add: sorted_iff_nth_mono)
    moreover have "names_of rows ! i \<noteq> names_of rows ! j"
      using ij names_of_distinct [of rows] by (simp add: nth_eq_iff_index_eq)
    ultimately show "names_of rows ! i < names_of rows ! j"
      by simp
  qed
  show "length (client_rows (names_of rows)) = length (names_of rows)"
    by (simp add: client_rows_def)
  show "\<forall>i<length (names_of rows).
         client_rows (names_of rows) ! i = client_row (5 + i) (names_of rows ! i)
         \<and> hd (client_row (5 + i) (names_of rows ! i)) = ((5 + i, 1), CText (names_of rows ! i))"
    by (simp add: client_rows_nth client_row_hd)
qed

theorem client_roster_witness:
  "names_of [sample_row (u ''Bia'') vendida 30, sample_row (u ''Ana'') vendida 10,
             sample_row [] (u ''pendente'') 5, sample_row (u ''Bia'') (u ''pendente'') 7]
     = [[], u ''Ana'', u ''Bia'']
   \<and> client_rows [[], u ''Ana'', u ''Bia''] ! 1 = client_row 6 (u ''Ana'')
   \<and> [] < u ''Ana'' \<and> u ''Ana'' < u ''Bia''"
proof -
  let ?rows = "[sample_row (u ''Bia'') vendida 30, sample_row (u ''Ana'') vendida 10,
             sample_row [] (u ''pendente'') 5, sample_row (u ''Bia'') (u ''pendente'') 7]"
  have n: "names_of ?rows = [[], u ''Ana'', u ''Bia'']"
    by (simp add: names_of_def sample_row_def u_def)
  note t = client_roster [of ?rows]
  have 1: "client_rows (names_of ?rows) ! 1 = client_row (5 + 1) (names_of ?rows ! 1)"
    using t [THEN conjunct2, THEN conjunct2, THEN conjunct2, THEN conjunct2, THEN conjunct2] n
    by simp
  note o = t [THEN conjunct2, THEN conjunct2, THEN conjunct2, THEN conjunct1, rule_format]
  have 2: "names_of ?rows ! 0 < names_of ?rows ! 1 \<and> names_of ?rows ! 1 < names_of ?rows ! 2"
    using o [of 0 1] o [of 1 2] n by simp
  from n 1 2 show ?thesis
    by simp
qed

theorem empty_client_name_in_roster:
  "derive_rows sample [VDict [(u ''id'', VInt 1)]]
     = Inr [mk_row sample [(u ''id'', VInt 1)] 1 (2026, 11, 4) 0]
   \<and> names_of [mk_row sample [(u ''id'', VInt 1)] 1 (2026, 11, 4) 0] = [[]]
   \<and> client_rows [[]] = [client_row 5 []]"
proof -
  have "derive_row sample (VDict [(u ''id'', VInt 1)])
          = Inr (mk_row sample [(u ''id'', VInt 1)] 1 (2026, 11, 4) 0)"
    by (simp add: derive_defs sample_defs text_defs)
  then have 1: "derive_rows sample [VDict [(u ''id'', VInt 1)]]
     = Inr [mk_row sample [(u ''id'', VInt 1)] 1 (2026, 11, 4) 0]"
    by (simp add: derive_rows_def)
  have 2: "names_of [mk_row sample [(u ''id'', VInt 1)] 1 (2026, 11, 4) 0] = [[]]"
    by (simp add: names_of_def mk_row_def Let_def py_get_def u_def)
  have 3: "client_rows [[]] = [client_row 5 []]"
    by (simp add: client_rows_def start_def)
  from 1 2 3 show ?thesis
    by simp
qed

section \<open>The empty input\<close>

lemma derive_rows_empty: "derive_rows B [] = Inr []"
  by (simp add: derive_rows_def)

lemma max_row_empty: "max_row [] = 1"
  by (simp add: max_row_def data_sheet_def)

lemmas range_defs = a_rng_def d_rng_def f_rng_def canal_rng_def data_rng_def month_is_def
  status_is_def sum_formula_def

text \<open>
  C2. With no proposal the data sheet holds the header row only, so \<^verbatim>\<open>max_row\<close> is 1.
  The roster and the ranking are empty and the conditional formats, guarded by
  \<^verbatim>\<open>max_row >= 2\<close>, are not added. The four ranges of the trend table, which have no
  such guard, run from row 2 to row 1, and the total row of the client sheet, written in
  row 5, sums rows 5 to 4.
\<close>

theorem empty_input_ranges:
  "derive_rows B [] = Inr []
   \<and> max_row [] = 1
   \<and> client_rows (names_of []) = []
   \<and> concat (top10 (sorted_clients B [])) = []
   \<and> cond_format_ranges (max_row []) = []
   \<and> a_rng (max_row []) = u ''Dados!$A$2:$A$1''
   \<and> d_rng (max_row []) = u ''Dados!$D$2:$D$1''
   \<and> f_rng (max_row []) = u ''Dados!$F$2:$F$1''
   \<and> canal_rng (max_row []) = u ''Dados!$E$2:$E$1''
   \<and> map_of (trend_row (max_row []) 0) (24, 4)
       = Some (CText (u ''=SUMPRODUCT((TEXT(Dados!$A$2:$A$1,\"yyyy-mm\")=B24)*(Dados!$D$2:$D$1=\"vendida\"))''))
   \<and> map_of (total_row (names_of [])) (5, 2) = Some (CText (u ''=SUM(B5:B4)''))
   \<and> map_of (total_row (names_of [])) (5, 5) = Some (CText (u ''=SUM(E5:E4)''))"
proof (intro conjI)
  show "derive_rows B [] = Inr []"
    by (rule derive_rows_empty)
  show "max_row [] = 1"
    by (rule max_row_empty)
  show "client_rows (names_of []) = []"
    by (simp add: names_of_def client_rows_def)
  show "concat (top10 (sorted_clients B [])) = []"
    by (simp add: sorted_clients_def names_of_def top10_def top10_slot_def)
  show "cond_format_ranges (max_row []) = []"
    by (simp add: max_row_empty cond_format_ranges_def)
  show "a_rng (max_row []) = u ''Dados!$A$2:$A$1''"
    by (simp add: max_row_empty range_defs text_defs)
  show "d_rng (max_row []) = u ''Dados!$D$2:$D$1''"
    by (simp add: max_row_empty range_defs text_defs)
  show "f_rng (max_row []) = u ''Dados!$F$2:$F$1''"
    by (simp add: max_row_empty range_defs text_defs)
  show "canal_rng (max_row []) = u ''Dados!$E$2:$E$1''"
    by (simp add: max_row_empty range_defs text_defs)
  show "map_of (trend_row (max_row []) 0) (24, 4)
       = Some (CText (u ''=SUMPRODUCT((TEXT(Dados!$A$2:$A$1,\"yyyy-mm\")=B24)*(Dados!$D$2:$D$1=\"vendida\"))''))"
    by (simp add: max_row_empty trend_row_def base_row_def Let_def range_defs text_defs)
  show "map_of (total_row (names_of [])) (5, 2) = Some (CText (u ''=SUM(B5:B4)''))"
    by (simp add: names_of_def total_row_def start_def Let_def range_defs text_defs)
  show "map_of (total_row (names_of [])) (5, 5) = Some (CText (u ''=SUM(E5:E4)''))"
    by (simp add: names_of_def total_row_def start_def Let_def range_defs text_defs)
qed

text \<open>
  C10. When standard input is empty, \<^verbatim>\<open>json.loads\<close> is handed the text \<^verbatim>\<open>{}\<close> in its
  place. That text is the empty object, so the proposal list is empty, and a run that was
  given its output path saves the workbook built from no rows.
\<close>

theorem empty_stdin_proceeds:
  "read_payload B [] = json_loads B (u ''{}'')
   \<and> (json_loads B (u ''{}'') = Inr (VDict []) \<and> 2 \<le> length argv \<longrightarrow>
        proposals_of (VDict []) = Inr (VList [])
        \<and> main B argv [] = Saved (argv ! 1) (build B []))"
  by (simp add: read_payload_def proposals_of_def py_get_def main_def derive_rows_empty)

theorem empty_stdin_proceeds_witness:
  "main sample [u ''generate_premium_dashboard_excel.py'', u ''out.xlsx''] []
     = Saved (u ''out.xlsx'') (build sample [])"
proof -
  have j: "json_loads sample (u ''{}'') = Inr (VDict [])"
    by (simp add: sample_def)
  have l: "2 \<le> length [u ''generate_premium_dashboard_excel.py'', u ''out.xlsx'']"
    by simp
  from empty_stdin_proceeds [of sample "[u ''generate_premium_dashboard_excel.py'', u ''out.xlsx'']"]
    j l
  show ?thesis
    by simp
qed

section \<open>The aggregates\<close>


















end
